theory Spec2Isabelle
  imports Complex_Main
begin

section \<open>JavaScript values, as far as the code inspects them\<close>

text \<open>
  \<open>calculateEasterYMD\<close> (src/easter.js) accepts any JavaScript value and inspects it with
  \<open>typeof\<close>, \<open>Number.isInteger\<close> and \<open><\<close>. A Number is \<open>NaN\<close>, one of the two
  infinities, or a finite value; a finite value is modelled by the rational it denotes.

  Modelling convention: arithmetic on integer-valued Numbers is carried out on \<open>int\<close>,
  exactly. IEEE-754 rounding is not part of the model; the two coincide as long as every
  value stays within the safe-integer range (absolute value at most \<open>2^53\<close>).
\<close>

datatype js_number = NaN | Infinity | MinusInfinity | Finite rat

datatype js_value =
    Undefined
  | Null
  | Boolean bool
  | Number js_number
  | String string
  | BigInt int
  | Symbol
  | Object

datatype js_error = TypeError string | RangeError string

fun typeof :: "js_value \<Rightarrow> string" where
  "typeof Undefined = ''undefined''"
| "typeof Null = ''object''"
| "typeof (Boolean _) = ''boolean''"
| "typeof (Number _) = ''number''"
| "typeof (String _) = ''string''"
| "typeof (BigInt _) = ''bigint''"
| "typeof Symbol = ''symbol''"
| "typeof Object = ''object''"

text \<open>\<open>Number.isInteger(v)\<close>: true only for a finite Number without fractional part.\<close>

fun Number_isInteger :: "js_value \<Rightarrow> bool" where
  "Number_isInteger (Number (Finite q)) = (of_int \<lfloor>q\<rfloor> = q)"
| "Number_isInteger _ = False"

text \<open>The integer held by an integer-valued Number (only read after the guard has passed).\<close>

fun to_int :: "js_value \<Rightarrow> int" where
  "to_int (Number (Finite q)) = \<lfloor>q\<rfloor>"
| "to_int _ = 0"

abbreviation int_year :: "int \<Rightarrow> js_value" where
  "int_year n \<equiv> Number (Finite (of_int n))"

text \<open>
  The \<open>%\<close> operator on integer-valued Numbers with a non-zero right operand: the remainder
  of the truncating division, which takes the sign of the left operand.
\<close>

definition js_rem :: "int \<Rightarrow> int \<Rightarrow> int" where
  "js_rem x n = sgn x * (\<bar>x\<bar> mod \<bar>n\<bar>)"

text \<open>\<open>Math.floor\<close>, applied in the source to the exact quotient \<open>x / n\<close>.\<close>

definition Math_floor :: "rat \<Rightarrow> int" where
  "Math_floor x = \<lfloor>x\<rfloor>"

section \<open>src/easter.js: calculateEasterYMD\<close>

text \<open>
  Each \<open>const\<close> of the function body (lines 58 to 125) is one definition, a function of
  the year \<open>y\<close>; the constant \<open>x\<close> of the source is \<open>x_of\<close> here.
\<close>

definition mc :: int where
  "mc = 19"

definition a_of :: "int \<Rightarrow> int" where
  "a_of y = js_rem y mc"

definition b_of :: "int \<Rightarrow> int" where
  "b_of y = Math_floor (of_int y / 100)"

definition c_of :: "int \<Rightarrow> int" where
  "c_of y = js_rem y 100"

definition d_of :: "int \<Rightarrow> int" where
  "d_of y = Math_floor (of_int (b_of y) / 4)"

definition e_of :: "int \<Rightarrow> int" where
  "e_of y = js_rem (b_of y) 4"

definition f_of :: "int \<Rightarrow> int" where
  "f_of y = Math_floor (of_int (b_of y + 8) / 25)"

definition g_of :: "int \<Rightarrow> int" where
  "g_of y = Math_floor (of_int (b_of y - f_of y + 1) / 3)"

definition h_of :: "int \<Rightarrow> int" where
  "h_of y = js_rem ((mc * a_of y) + b_of y - d_of y - g_of y + 15) 30"

definition i_of :: "int \<Rightarrow> int" where
  "i_of y = Math_floor (of_int (c_of y) / 4)"

definition k_of :: "int \<Rightarrow> int" where
  "k_of y = js_rem (c_of y) 4"

definition l_of :: "int \<Rightarrow> int" where
  "l_of y = js_rem (32 + (2 * e_of y) + (2 * i_of y) - h_of y - k_of y) 7"

definition m_of :: "int \<Rightarrow> int" where
  "m_of y = Math_floor (of_int (a_of y + (11 * h_of y) + (22 * l_of y)) / 451)"

definition month_of :: "int \<Rightarrow> int" where
  "month_of y = Math_floor (of_int (h_of y + l_of y - (7 * m_of y) + 114) / 31)"

definition day_of :: "int \<Rightarrow> int" where
  "day_of y = js_rem (h_of y + l_of y - (7 * m_of y) + 114) 31 + 1"

text \<open>
  The function itself: the two guards of lines 45 to 50, then the triple
  \<open>[y, month, day]\<close>. A \<open>throw\<close> is the left injection.
\<close>

definition calculateEasterYMD :: "js_value \<Rightarrow> js_error + (int \<times> int \<times> int)" where
  "calculateEasterYMD v =
     (if typeof v \<noteq> ''number'' \<or> \<not> Number_isInteger v
      then Inl (TypeError ''year must be an integer'')
      else let y = to_int v in
        if y < 1583
        then Inl (RangeError ''Gregorian Easter is defined for years >= 1583'')
        else Inr (y, month_of y, day_of y))"

section \<open>The Computus as the specification words it\<close>


text \<open>
  The date the computation would give without the final correction, that is with
  \<open>overflowCorrection = 0\<close> in \<open>rawOffset\<close>.
\<close>

definition uncorrected_rawOffset :: "int \<Rightarrow> int" where
  "uncorrected_rawOffset y = h_of y + l_of y + 114"

definition uncorrected_month :: "int \<Rightarrow> int" where
  "uncorrected_month y = uncorrected_rawOffset y div 31"

definition uncorrected_day :: "int \<Rightarrow> int" where
  "uncorrected_day y = (uncorrected_rawOffset y mod 31) + 1"

section \<open>src/main.js, first variant: the inline calculateEaster\<close>

text \<open>
  Lines 20 to 100 of src/main.js. The function has no guard. Its lines 28 to 75 repeat
  lines 58 to 105 of src/easter.js; line 85 has the literal \<open>1\<close> where src/easter.js has
  the variable \<open>l\<close>. \<open>m\<close>, \<open>month\<close> and \<open>day\<close> are assigned without a declaration, which
  in a classic script creates globals and lets the function return normally.
\<close>

definition main_calculateEaster :: "int \<Rightarrow> int \<times> int \<times> int" where
  "main_calculateEaster y =
     (let a = js_rem y mc;
          b = Math_floor (of_int y / 100);
          c = js_rem y 100;
          d = Math_floor (of_int b / 4);
          e = js_rem b 4;
          f = Math_floor (of_int (b + 8) / 25);
          g = Math_floor (of_int (b - f + 1) / 3);
          h = js_rem ((mc * a) + b - d - g + 15) 30;
          i = Math_floor (of_int c / 4);
          k = js_rem c 4;
          l = js_rem (32 + (2 * e) + (2 * i) - h - k) 7;
          m = Math_floor (of_int (a + (11 * h) + (22 * 1)) / 451);
          month = Math_floor (of_int (h + l - (7 * m) + 114) / 31);
          day = js_rem (h + l - (7 * m) + 114) 31 + 1
      in (y, month, day))"

section \<open>The three tenseSetter functions of the presentation layer\<close>

text \<open>
  First variant (src/main.js, lines 173 to 181): three independent \<open>if\<close> statements
  assign \<open>tenseWord\<close>, which starts \<open>undefined\<close>. \<open>===\<close> against a string literal holds
  only for that string.
\<close>

definition tenseSetter_main1 :: "js_value \<Rightarrow> js_value" where
  "tenseSetter_main1 t =
     (let tenseWord = Undefined;
          tenseWord = (if t = String ''past'' then String ''was Easter'' else tenseWord);
          tenseWord = (if t = String ''present'' then String ''is Easter'' else tenseWord);
          tenseWord = (if t = String ''future'' then String ''will Easter be'' else tenseWord)
      in tenseWord)"

text \<open>Second variant (src/main.js, lines 277 to 282).\<close>

definition tenseSetter_main2 :: "js_value \<Rightarrow> js_value" where
  "tenseSetter_main2 t =
     (if t = String ''past'' then String ''was Easter''
      else if t = String ''present'' then String ''is Easter''
      else if t = String ''future'' then String ''will Easter be''
      else String '''')"

text \<open>Third variant (src/unnamed/part_000, lines 81 to 86).\<close>

definition tenseSetter_part000 :: "js_value \<Rightarrow> js_value" where
  "tenseSetter_part000 t =
     (if t = String ''past'' then String ''was Easter''
      else if t = String ''present'' then String ''is Easter''
      else if t = String ''future'' then String ''will be Easter''
      else String '''')"

section \<open>Arithmetic of the two operators\<close>

lemma Math_floor_div: "Math_floor (of_int x / of_int n) = x div n"
  by (simp add: Math_floor_def floor_divide_of_int_eq)

lemma Math_floor_numeral: "Math_floor (of_int x / numeral n) = x div numeral n"
  using Math_floor_div [of x "numeral n"] by simp

lemma js_rem_nonneg: "0 \<le> x \<Longrightarrow> 0 < n \<Longrightarrow> js_rem x n = x mod n"
  by (cases "x = 0") (simp_all add: js_rem_def)

section \<open>Each step in terms of floor division and non-negative modulo\<close>

text \<open>
  \<open>Math.floor(x / n)\<close> is \<open>x div n\<close> without condition. A \<open>%\<close> is \<open>mod\<close> once its left
  operand is known to be non-negative, which is shown step by step together with the range
  of each value.
\<close>

lemma a_of_eq: "0 \<le> y \<Longrightarrow> a_of y = y mod 19"
  by (simp add: a_of_def mc_def js_rem_nonneg)

lemma b_of_eq: "b_of y = y div 100"
  unfolding b_of_def by (rule Math_floor_numeral)

lemma c_of_eq: "0 \<le> y \<Longrightarrow> c_of y = y mod 100"
  by (simp add: c_of_def js_rem_nonneg)

lemma b_of_nonneg: "0 \<le> y \<Longrightarrow> 0 \<le> b_of y"
  by (simp add: b_of_eq pos_imp_zdiv_nonneg_iff)

lemma d_of_eq: "d_of y = b_of y div 4"
  unfolding d_of_def by (rule Math_floor_numeral)

lemma e_of_eq: "0 \<le> y \<Longrightarrow> e_of y = b_of y mod 4"
  by (simp add: e_of_def js_rem_nonneg b_of_nonneg)

lemma f_of_eq: "f_of y = (b_of y + 8) div 25"
  unfolding f_of_def by (rule Math_floor_numeral)

lemma g_of_eq: "g_of y = (b_of y - f_of y + 1) div 3"
  unfolding g_of_def by (rule Math_floor_numeral)

lemma a_of_bounds: "0 \<le> y \<Longrightarrow> 0 \<le> a_of y \<and> a_of y \<le> 18"
  by (simp add: a_of_eq)

lemma c_of_bounds: "0 \<le> y \<Longrightarrow> 0 \<le> c_of y \<and> c_of y \<le> 99"
  by (simp add: c_of_eq)

lemma century_terms_nonneg:
  "0 \<le> (b::int) \<Longrightarrow> 0 \<le> b - b div 4 - (b - (b + 8) div 25 + 1) div 3"
  by linarith

lemma h_operand_nonneg:
  "0 \<le> y \<Longrightarrow> 0 \<le> (mc * a_of y) + b_of y - d_of y - g_of y + 15"
  using a_of_bounds [of y] century_terms_nonneg [OF b_of_nonneg, of y]
  by (simp add: mc_def d_of_eq g_of_eq f_of_eq)

lemma h_of_eq:
  assumes "0 \<le> y"
  shows "h_of y = ((mc * a_of y) + b_of y - d_of y - g_of y + 15) mod 30"
  unfolding h_of_def using h_operand_nonneg [OF assms] by (rule js_rem_nonneg) simp

lemma h_of_bounds: "0 \<le> y \<Longrightarrow> 0 \<le> h_of y \<and> h_of y \<le> 29"
  by (simp add: h_of_eq)

lemma i_of_eq: "i_of y = c_of y div 4"
  unfolding i_of_def by (rule Math_floor_numeral)

lemma k_of_eq: "0 \<le> y \<Longrightarrow> k_of y = c_of y mod 4"
  unfolding k_of_def by (rule js_rem_nonneg) (simp_all add: c_of_bounds)

lemma e_of_bounds: "0 \<le> y \<Longrightarrow> 0 \<le> e_of y \<and> e_of y \<le> 3"
  by (simp add: e_of_eq)

lemma i_of_bounds: "0 \<le> y \<Longrightarrow> 0 \<le> i_of y \<and> i_of y \<le> 24"
  using c_of_bounds [of y] unfolding i_of_eq by linarith

lemma k_of_bounds: "0 \<le> y \<Longrightarrow> 0 \<le> k_of y \<and> k_of y \<le> 3"
  by (simp add: k_of_eq)

lemma l_operand_nonneg:
  "0 \<le> y \<Longrightarrow> 0 \<le> 32 + (2 * e_of y) + (2 * i_of y) - h_of y - k_of y"
  using e_of_bounds [of y] i_of_bounds [of y] h_of_bounds [of y] k_of_bounds [of y]
  by linarith

lemma l_of_eq:
  assumes "0 \<le> y"
  shows "l_of y = (32 + (2 * e_of y) + (2 * i_of y) - h_of y - k_of y) mod 7"
  unfolding l_of_def using l_operand_nonneg [OF assms] by (rule js_rem_nonneg) simp

lemma l_of_bounds: "0 \<le> y \<Longrightarrow> 0 \<le> l_of y \<and> l_of y \<le> 6"
  by (simp add: l_of_eq)

lemma m_of_eq: "m_of y = (a_of y + (11 * h_of y) + (22 * l_of y)) div 451"
  unfolding m_of_def by (rule Math_floor_numeral)

lemma div_451_cases:
  assumes "0 \<le> (x::int)" and "x < 902"
  shows "x div 451 = (if x < 451 then 0 else 1)"
proof (cases "x < 451")
  case True
  with assms show ?thesis by simp
next
  case False
  have "x div 451 = (x - 451) div 451 + 1"
    by simp
  moreover have "(x - 451) div 451 = 0"
    using False assms by (intro div_pos_pos_trivial) linarith+
  ultimately show ?thesis using False by simp
qed

lemma m_of_cases:
  "0 \<le> y \<Longrightarrow> m_of y = (if a_of y + (11 * h_of y) + (22 * l_of y) < 451 then 0 else 1)"
  using a_of_bounds [of y] h_of_bounds [of y] l_of_bounds [of y]
  unfolding m_of_eq by (intro div_451_cases) linarith+

lemma m_of_bounds: "0 \<le> y \<Longrightarrow> 0 \<le> m_of y \<and> m_of y \<le> 1"
  by (simp add: m_of_cases)

lemma m_of_one_iff:
  "0 \<le> y \<Longrightarrow> m_of y = 1 \<longleftrightarrow> l_of y = 6 \<and> (h_of y = 29 \<or> h_of y = 28 \<and> 10 < a_of y)"
  using a_of_bounds [of y] h_of_bounds [of y] l_of_bounds [of y]
  by (simp add: m_of_cases) linarith

lemma raw_nonneg: "0 \<le> y \<Longrightarrow> 0 \<le> h_of y + l_of y - (7 * m_of y) + 114"
  using h_of_bounds [of y] l_of_bounds [of y] m_of_bounds [of y] by linarith

lemma month_of_eq: "month_of y = (h_of y + l_of y - (7 * m_of y) + 114) div 31"
  unfolding month_of_def by (rule Math_floor_numeral)

lemma day_of_eq:
  assumes "0 \<le> y"
  shows "day_of y = (h_of y + l_of y - (7 * m_of y) + 114) mod 31 + 1"
proof -
  have "js_rem (h_of y + l_of y - (7 * m_of y) + 114) 31 = (h_of y + l_of y - (7 * m_of y) + 114) mod 31"
    using raw_nonneg [OF assms] by (rule js_rem_nonneg) simp
  then show ?thesis unfolding day_of_def by (rule arg_cong)
qed

lemma raw_bounds:
  "0 \<le> y \<Longrightarrow> 114 \<le> h_of y + l_of y - (7 * m_of y) + 114 \<and> h_of y + l_of y - (7 * m_of y) + 114 \<le> 148"
  using a_of_bounds [of y] h_of_bounds [of y] l_of_bounds [of y] m_of_bounds [of y] m_of_one_iff [of y]
  by linarith

section \<open>The guards on an integer-valued Number\<close>

lemma typeof_int_year: "typeof (int_year y) = ''number''"
  by simp

lemma Number_isInteger_int_year: "Number_isInteger (int_year y)"
  by simp

lemma to_int_int_year: "to_int (int_year y) = y"
  by simp

lemma calculateEasterYMD_int_year:
  "1583 \<le> y \<Longrightarrow> calculateEasterYMD (int_year y) = Inr (y, month_of y, day_of y)"
  unfolding calculateEasterYMD_def
  by (simp only: typeof_int_year Number_isInteger_int_year to_int_int_year Let_def) simp

section \<open>Evaluation at particular years\<close>

text \<open>
  The steps rewritten to \<open>div\<close> and \<open>mod\<close> evaluate on numerals; 1954 and 1981 are years
  in which the final correction applies.
\<close>

lemmas step_eqs =
  month_of_eq day_of_eq m_of_eq l_of_eq k_of_eq i_of_eq h_of_eq g_of_eq f_of_eq e_of_eq
  d_of_eq c_of_eq b_of_eq a_of_eq mc_def

lemmas uncorrected_defs = uncorrected_month_def uncorrected_day_def uncorrected_rawOffset_def

lemma date_2024: "month_of 2024 = 3 \<and> day_of 2024 = 31"
  by (simp add: step_eqs)

lemma date_2025: "month_of 2025 = 4 \<and> day_of 2025 = 20"
  by (simp add: step_eqs)

lemma date_2000: "month_of 2000 = 4 \<and> day_of 2000 = 23"
  by (simp add: step_eqs)

lemma date_1900: "month_of 1900 = 4 \<and> day_of 1900 = 15"
  by (simp add: step_eqs)

lemma date_1583: "month_of 1583 = 4 \<and> day_of 1583 = 10"
  by (simp add: step_eqs)

lemma date_1954: "month_of 1954 = 4 \<and> day_of 1954 = 18"
  by (simp add: step_eqs)

lemma steps_1954: "a_of 1954 = 16 \<and> h_of 1954 = 28 \<and> l_of 1954 = 6 \<and> m_of 1954 = 1"
  by (simp add: step_eqs)

lemma uncorrected_1954: "uncorrected_month 1954 = 4 \<and> uncorrected_day 1954 = 25"
  by (simp add: uncorrected_defs steps_1954)

lemma steps_1981: "a_of 1981 = 5 \<and> h_of 1981 = 29 \<and> l_of 1981 = 6"
  by (simp add: step_eqs)

lemma uncorrected_1981: "uncorrected_month 1981 = 4 \<and> uncorrected_day 1981 = 26"
  by (simp add: uncorrected_defs steps_1981)

section \<open>The date window and the uncorrected date\<close>

lemma window_of_raw:
  assumes "114 \<le> (r::int)" and "r \<le> 148"
  shows "(r div 31 = 3 \<or> r div 31 = 4) \<and>
         (r div 31 = 3 \<longrightarrow> 22 \<le> r mod 31 + 1 \<and> r mod 31 + 1 \<le> 31) \<and>
         (r div 31 = 4 \<longrightarrow> 1 \<le> r mod 31 + 1 \<and> r mod 31 + 1 \<le> 25)"
  using assms by presburger

lemma date_window:
  assumes "0 \<le> y"
  shows "(month_of y = 3 \<or> month_of y = 4) \<and>
         (month_of y = 3 \<longrightarrow> 22 \<le> day_of y \<and> day_of y \<le> 31) \<and>
         (month_of y = 4 \<longrightarrow> 1 \<le> day_of y \<and> day_of y \<le> 25)"
  unfolding month_of_eq day_of_eq [OF assms]
  using raw_bounds [OF assms] by (intro window_of_raw) simp_all

lemma uncorrected_dates_of_raw:
  assumes "114 \<le> (r::int)" and "r \<le> 149"
  shows "(r div 31 = 4 \<and> r mod 31 + 1 = 26 \<longleftrightarrow> r = 149) \<and>
         (r div 31 = 4 \<and> r mod 31 + 1 = 25 \<longleftrightarrow> r = 148) \<and>
         \<not> (r div 31 = 3 \<and> r mod 31 + 1 = 21)"
  using assms by presburger

section \<open>The guards on other values\<close>

lemma not_integer_TypeError:
  assumes "\<nexists>n. v = int_year n"
  shows "calculateEasterYMD v = Inl (TypeError ''year must be an integer'')"
proof (cases "typeof v \<noteq> ''number'' \<or> \<not> Number_isInteger v")
  case True
  then show ?thesis
    by (simp add: calculateEasterYMD_def)
next
  case False
  then have "Number_isInteger v"
    by simp
  then obtain q where "v = Number (Finite q)" and "of_int \<lfloor>q\<rfloor> = q"
    by (elim Number_isInteger.elims) simp_all
  then have "v = int_year \<lfloor>q\<rfloor>"
    by (simp only:)
  with assms show ?thesis
    by blast
qed

lemma below_1583_RangeError:
  assumes "n < 1583"
  shows "calculateEasterYMD (int_year n) =
           Inl (RangeError ''Gregorian Easter is defined for years >= 1583'')"
  unfolding calculateEasterYMD_def
  using assms
  by (simp only: typeof_int_year Number_isInteger_int_year to_int_int_year Let_def) simp

lemma half_not_int: "(3165 / 2 :: rat) \<noteq> of_int n"
proof
  assume "(3165 / 2 :: rat) = of_int n"
  then have "(of_int 3165 :: rat) = of_int (2 * n)"
    by simp
  then have "3165 = 2 * n"
    by (simp only: of_int_eq_iff)
  then show False
    by presburger
qed

section \<open>The inline variant never applies the final correction\<close>

text \<open>
  With the literal \<open>1\<close> in place of \<open>l\<close>, the test number of line 85 is at most
  \<open>18 + 11 * 29 + 22 = 359\<close>, so \<open>m\<close> is 0 in every year: the inline function returns the
  uncorrected date, and agrees with \<open>calculateEasterYMD\<close> exactly in the years in which
  the correction of src/easter.js is 0.
\<close>

lemma Math_floor_numerals: "Math_floor (numeral a / numeral b) = numeral a div numeral b"
  using Math_floor_numeral [of "numeral a" b] by simp

lemma main_1954: "main_calculateEaster 1954 = (1954, 4, 25)"
  by (simp add: main_calculateEaster_def mc_def js_rem_nonneg Math_floor_numerals)

lemma main_calculateEaster_no_correction:
  assumes "0 \<le> y"
  shows "main_calculateEaster y =
           (y, (h_of y + l_of y + 114) div 31, (h_of y + l_of y + 114) mod 31 + 1)"
proof -
  have "0 \<le> a_of y + (11 * h_of y) + (22 * 1)"
    using a_of_bounds [OF assms] h_of_bounds [OF assms] by linarith
  moreover have "a_of y + (11 * h_of y) + (22 * 1) < 451"
    using a_of_bounds [OF assms] h_of_bounds [OF assms] by linarith
  ultimately have m0: "Math_floor (of_int (a_of y + (11 * h_of y) + (22 * 1)) / 451) = 0"
    unfolding Math_floor_numeral by (rule div_pos_pos_trivial)
  have raw0: "0 \<le> h_of y + l_of y + 114"
    using h_of_bounds [OF assms] l_of_bounds [OF assms] by linarith
  have "main_calculateEaster y =
          (y, Math_floor (of_int (h_of y + l_of y - (7 * 0) + 114) / 31),
              js_rem (h_of y + l_of y - (7 * 0) + 114) 31 + 1)"
    unfolding main_calculateEaster_def Let_def
    by (fold a_of_def b_of_def c_of_def, fold d_of_def e_of_def f_of_def, fold g_of_def,
        fold h_of_def i_of_def k_of_def, fold l_of_def, unfold m0) (rule refl)
  then show ?thesis
    using raw0 unfolding Math_floor_numeral by (simp add: js_rem_nonneg)
qed

lemma shift_by_seven_changes_date:
  "\<not> ((r - 7) div 31 = (r::int) div 31 \<and> (r - 7) mod 31 + 1 = r mod 31 + 1)"
  by presburger

lemma main_calculateEaster_agrees_iff:
  assumes "1583 \<le> y"
  shows "calculateEasterYMD (int_year y) = Inr (main_calculateEaster y) \<longleftrightarrow> m_of y = 0"
proof -
  have y0: "0 \<le> y"
    using assms by simp
  have m01: "m_of y = 0 \<or> m_of y = 1"
    using m_of_bounds [OF y0] by linarith
  show ?thesis
    unfolding calculateEasterYMD_int_year [OF assms] main_calculateEaster_no_correction [OF y0]
      month_of_eq day_of_eq [OF y0]
    using m01 shift_by_seven_changes_date [of "h_of y + l_of y + 114"]
    by auto
qed

section \<open>C1: calculateEasterYMD is the Computus of the specification\<close>



section \<open>C2: the date lies between March 22 and April 25\<close>

text \<open>
  Claim C2. For every integer year \<open>y\<close> with \<open>1583 \<le> y \<le> 2583\<close>, the triple returned by
  \<open>calculateEasterYMD(y)\<close> has month 3 or 4; if the month is 3 the day is between 22 and 31,
  and if the month is 4 the day is between 1 and 25.
\<close>

theorem easter_date_window:
  assumes "1583 \<le> y" and "y \<le> 2583"
  shows "\<exists>month day. calculateEasterYMD (int_year y) = Inr (y, month, day) \<and>
           (month = 3 \<or> month = 4) \<and>
           (month = 3 \<longrightarrow> 22 \<le> day \<and> day \<le> 31) \<and>
           (month = 4 \<longrightarrow> 1 \<le> day \<and> day \<le> 25)"
proof -
  have "0 \<le> y"
    using assms(1) by simp
  from date_window [OF this] calculateEasterYMD_int_year [OF assms(1)] show ?thesis
    by blast
qed

theorem easter_date_window_witness:
  "1583 \<le> (2024::int) \<and> (2024::int) \<le> 2583 \<and>
   (\<exists>month day. calculateEasterYMD (int_year 2024) = Inr (2024, month, day) \<and>
      (month = 3 \<or> month = 4) \<and>
      (month = 3 \<longrightarrow> 22 \<le> day \<and> day \<le> 31) \<and>
      (month = 4 \<longrightarrow> 1 \<le> day \<and> day \<le> 25))"
proof -
  have lo: "1583 \<le> (2024::int)" and hi: "(2024::int) \<le> 2583"
    by simp_all
  from lo hi easter_date_window [OF lo hi] show ?thesis
    by (intro conjI)
qed

section \<open>C3: the two errors and the absence of an upper bound\<close>

text \<open>
  Claim C3. For every input that is not an integer Number (a value of another type, \<open>NaN\<close>,
  an infinity, a Number with a fractional part such as 1582.5), \<open>calculateEasterYMD\<close> throws
  the TypeError \<open>year must be an integer\<close>; for every integer below 1583 it throws the
  RangeError about years \<open>>= 1583\<close>; for every integer from 1583 on, however large, it
  returns a triple whose first component is the year.
\<close>

theorem calculateEasterYMD_errors:
  "(\<forall>v. (\<nexists>n. v = int_year n) \<longrightarrow>
      calculateEasterYMD v = Inl (TypeError ''year must be an integer'')) \<and>
   (\<forall>n. n < 1583 \<longrightarrow>
      calculateEasterYMD (int_year n) =
        Inl (RangeError ''Gregorian Easter is defined for years >= 1583'')) \<and>
   (\<forall>n. 1583 \<le> n \<longrightarrow>
      (\<exists>month day. calculateEasterYMD (int_year n) = Inr (n, month, day)))"
  using not_integer_TypeError below_1583_RangeError calculateEasterYMD_int_year
  by blast

theorem calculateEasterYMD_errors_witness:
  "calculateEasterYMD (String ''2024'') = Inl (TypeError ''year must be an integer'') \<and>
   calculateEasterYMD (Number NaN) = Inl (TypeError ''year must be an integer'') \<and>
   calculateEasterYMD (Number (Finite (3165 / 2))) = Inl (TypeError ''year must be an integer'') \<and>
   calculateEasterYMD (int_year 1582) =
     Inl (RangeError ''Gregorian Easter is defined for years >= 1583'') \<and>
   (\<exists>month day. calculateEasterYMD (int_year (10 ^ 100)) = Inr (10 ^ 100, month, day))"
proof -
  note parts = calculateEasterYMD_errors
  have 1: "\<nexists>n. String ''2024'' = int_year n"
    by simp
  have 2: "\<nexists>n. Number NaN = int_year n"
    by simp
  have 3: "\<nexists>n. Number (Finite (3165 / 2)) = int_year n"
    using half_not_int by simp
  have 4: "(1582::int) < 1583"
    by simp
  have 5: "1583 \<le> (10 ^ 100 :: int)"
    by simp
  from parts 1 have a: "calculateEasterYMD (String ''2024'') = Inl (TypeError ''year must be an integer'')"
    by blast
  from parts 2 have b: "calculateEasterYMD (Number NaN) = Inl (TypeError ''year must be an integer'')"
    by blast
  from parts 3 have c: "calculateEasterYMD (Number (Finite (3165 / 2))) = Inl (TypeError ''year must be an integer'')"
    by blast
  from parts 4 have d: "calculateEasterYMD (int_year 1582) =
     Inl (RangeError ''Gregorian Easter is defined for years >= 1583'')"
    by blast
  from parts 5 have e: "\<exists>month day. calculateEasterYMD (int_year (10 ^ 100)) = Inr (10 ^ 100, month, day)"
    by blast
  from a b c d e show ?thesis
    by (intro conjI)
qed

section \<open>C4: four known Easter dates\<close>

text \<open>
  Claim C4. \<open>calculateEasterYMD(2024) = (2024, 3, 31)\<close>,
  \<open>calculateEasterYMD(2025) = (2025, 4, 20)\<close>, \<open>calculateEasterYMD(2000) = (2000, 4, 23)\<close> and
  \<open>calculateEasterYMD(1900) = (1900, 4, 15)\<close>.
\<close>

theorem known_easter_dates:
  "calculateEasterYMD (int_year 2024) = Inr (2024, 3, 31) \<and>
   calculateEasterYMD (int_year 2025) = Inr (2025, 4, 20) \<and>
   calculateEasterYMD (int_year 2000) = Inr (2000, 4, 23) \<and>
   calculateEasterYMD (int_year 1900) = Inr (1900, 4, 15)"
  using calculateEasterYMD_int_year [of 2024] calculateEasterYMD_int_year [of 2025]
    calculateEasterYMD_int_year [of 2000] calculateEasterYMD_int_year [of 1900]
  by (simp add: date_2024 date_2025 date_2000 date_1900)

text \<open>
  Both guards pass at the year 2024, and the first of the four dates follows.
\<close>

theorem known_easter_dates_witness:
  "typeof (int_year 2024) = ''number'' \<and> Number_isInteger (int_year 2024) \<and>
   \<not> to_int (int_year 2024) < 1583 \<and>
   calculateEasterYMD (int_year 2024) = Inr (2024, 3, 31)"
proof -
  have "calculateEasterYMD (int_year 2024) = Inr (2024, 3, 31)"
    using known_easter_dates by (rule conjunct1)
  then show ?thesis
    by simp
qed

section \<open>C5: the year 1583\<close>

text \<open>
  The specification gives March 31 as the Easter date of 1583. The function returns
  another date for that year.
\<close>

theorem easter_1583_counterexample:
  "calculateEasterYMD (int_year 1583) \<noteq> Inr (1583, 3, 31)"
  using calculateEasterYMD_int_year [of 1583] by (simp add: date_1583)

text \<open>
  Claim C5, amended. \<open>calculateEasterYMD(1583) = (1583, 4, 10)\<close>: for the year 1583 the
  function returns month 4 and day 10.
\<close>

theorem easter_1583:
  "calculateEasterYMD (int_year 1583) = Inr (1583, 4, 10)"
  using calculateEasterYMD_int_year [of 1583] by (simp add: date_1583)

text \<open>
  Both guards pass at the year 1583, and the triple carries the year itself.
\<close>

theorem easter_1583_witness:
  "typeof (int_year 1583) = ''number'' \<and> Number_isInteger (int_year 1583) \<and>
   \<not> to_int (int_year 1583) < 1583 \<and>
   map_sum id fst (calculateEasterYMD (int_year 1583)) = Inr 1583"
proof -
  have "map_sum id fst (calculateEasterYMD (int_year 1583)) = Inr 1583"
    using easter_1583 by simp
  then show ?thesis
    by simp
qed

section \<open>C6: when the final correction applies\<close>

text \<open>
  In 1954 the correction \<open>m\<close> is 1 although the uncorrected computation gives April 25,
  which is neither March 21 nor April 26.
\<close>

theorem overflowCorrection_counterexample:
  "1583 \<le> (1954::int) \<and> m_of 1954 = 1 \<and>
   uncorrected_month 1954 = 4 \<and> uncorrected_day 1954 = 25 \<and>
   \<not> (m_of 1954 = 1 \<longleftrightarrow>
        (uncorrected_month 1954 = 3 \<and> uncorrected_day 1954 = 21) \<or>
        (uncorrected_month 1954 = 4 \<and> uncorrected_day 1954 = 26))"
  by (simp add: steps_1954 uncorrected_1954)

text \<open>
  Claim C6, amended. For every integer year \<open>y \<ge> 1583\<close>, the correction \<open>m\<close> (the
  specification's overflowCorrection) is 0 or 1. It is 1 exactly in the years in which the
  uncorrected computation would give April 26, or would give April 25 with epact \<open>h = 28\<close>
  and golden number \<open>a > 10\<close>; it is 0 in every other year. The uncorrected computation
  never gives March 21.
\<close>

theorem overflowCorrection_characterised:
  assumes "1583 \<le> y"
  shows "(m_of y = 0 \<or> m_of y = 1) \<and>
         (m_of y = 1 \<longleftrightarrow>
            (uncorrected_month y = 4 \<and> uncorrected_day y = 26) \<or>
            (uncorrected_month y = 4 \<and> uncorrected_day y = 25 \<and> h_of y = 28 \<and> 10 < a_of y)) \<and>
         \<not> (uncorrected_month y = 3 \<and> uncorrected_day y = 21)"
proof -
  have y0: "0 \<le> y"
    using assms by simp
  have raw: "114 \<le> uncorrected_rawOffset y" "uncorrected_rawOffset y \<le> 149"
    using h_of_bounds [OF y0] l_of_bounds [OF y0] by (simp_all add: uncorrected_rawOffset_def)
  note dates = uncorrected_dates_of_raw [OF raw, folded uncorrected_month_def uncorrected_day_def]
  have m01: "m_of y = 0 \<or> m_of y = 1"
    using m_of_bounds [OF y0] by linarith
  have apr26: "uncorrected_month y = 4 \<and> uncorrected_day y = 26 \<longleftrightarrow> h_of y = 29 \<and> l_of y = 6"
    using dates h_of_bounds [OF y0] l_of_bounds [OF y0]
    by (simp add: uncorrected_rawOffset_def) linarith
  have apr25: "uncorrected_month y = 4 \<and> uncorrected_day y = 25 \<and> h_of y = 28 \<longleftrightarrow> h_of y = 28 \<and> l_of y = 6"
    using dates h_of_bounds [OF y0] l_of_bounds [OF y0]
    by (simp add: uncorrected_rawOffset_def) linarith
  have "m_of y = 1 \<longleftrightarrow>
            (uncorrected_month y = 4 \<and> uncorrected_day y = 26) \<or>
            (uncorrected_month y = 4 \<and> uncorrected_day y = 25 \<and> h_of y = 28 \<and> 10 < a_of y)"
    using m_of_one_iff [OF y0] apr26 apr25 by blast
  with m01 dates show ?thesis
    by blast
qed

theorem overflowCorrection_characterised_witness:
  "1583 \<le> (1981::int) \<and> uncorrected_month 1981 = 4 \<and> uncorrected_day 1981 = 26 \<and> m_of 1981 = 1"
proof -
  have lo: "1583 \<le> (1981::int)"
    by simp
  from overflowCorrection_characterised [OF lo] uncorrected_1981 have "m_of 1981 = 1"
    by blast
  with lo uncorrected_1981 show ?thesis
    by blast
qed

section \<open>C7: the left operands of the remainder operator\<close>

text \<open>
  Claim C7. For every integer year \<open>y \<ge> 1583\<close>, the left operand of each of the seven
  \<open>%\<close> operations of \<open>calculateEasterYMD\<close> is non-negative, in particular
  \<open>32 + 2 * e + 2 * i - h - k\<close>; hence each \<open>%\<close> yields the non-negative modulo, and
  the weekday shift \<open>l\<close> lies between 0 and 6.
\<close>

theorem remainder_operands_nonneg:
  assumes "1583 \<le> y"
  shows "0 \<le> y \<and> 0 \<le> b_of y \<and> 0 \<le> c_of y \<and>
         0 \<le> (mc * a_of y) + b_of y - d_of y - g_of y + 15 \<and>
         0 \<le> 32 + (2 * e_of y) + (2 * i_of y) - h_of y - k_of y \<and>
         0 \<le> h_of y + l_of y - (7 * m_of y) + 114 \<and>
         a_of y = y mod mc \<and>
         c_of y = y mod 100 \<and>
         e_of y = b_of y mod 4 \<and>
         h_of y = ((mc * a_of y) + b_of y - d_of y - g_of y + 15) mod 30 \<and>
         k_of y = c_of y mod 4 \<and>
         l_of y = (32 + (2 * e_of y) + (2 * i_of y) - h_of y - k_of y) mod 7 \<and>
         day_of y = (h_of y + l_of y - (7 * m_of y) + 114) mod 31 + 1 \<and>
         0 \<le> l_of y \<and> l_of y \<le> 6"
proof -
  have y0: "0 \<le> y"
    using assms by simp
  have "a_of y = y mod mc"
    using a_of_eq [OF y0] by (simp add: mc_def)
  with y0 b_of_nonneg [OF y0] c_of_bounds [OF y0] h_operand_nonneg [OF y0]
    l_operand_nonneg [OF y0] raw_nonneg [OF y0] c_of_eq [OF y0] e_of_eq [OF y0]
    h_of_eq [OF y0] k_of_eq [OF y0] l_of_eq [OF y0] day_of_eq [OF y0] l_of_bounds [OF y0]
  show ?thesis
    by (intro conjI) (erule conjunct1 conjunct2 | assumption)+
qed

theorem remainder_operands_nonneg_witness:
  "1583 \<le> (1583::int) \<and>
   0 \<le> 32 + (2 * e_of 1583) + (2 * i_of 1583) - h_of 1583 - k_of 1583 \<and>
   l_of 1583 = (32 + (2 * e_of 1583) + (2 * i_of 1583) - h_of 1583 - k_of 1583) mod 7 \<and>
   0 \<le> l_of 1583 \<and> l_of 1583 \<le> 6"
proof -
  have lo: "1583 \<le> (1583::int)"
    by simp
  from remainder_operands_nonneg [OF lo] lo show ?thesis
    by blast
qed

section \<open>C8: the ranges of the intermediate values\<close>

text \<open>
  The century number \<open>b\<close> exceeds 451 from the year 45200 on.
\<close>

theorem intermediate_range_counterexample:
  "1583 \<le> (45200::int) \<and> b_of 45200 = 452 \<and> \<not> b_of 45200 \<le> 451"
  by (simp add: b_of_eq)

text \<open>
  Claim C8, amended. For every integer year \<open>y \<ge> 1583\<close>, the values \<open>a\<close>, \<open>c\<close>, \<open>e\<close>,
  \<open>h\<close>, \<open>i\<close>, \<open>k\<close>, \<open>l\<close> and \<open>m\<close> lie between 0 and 451; the values \<open>b\<close>, \<open>d\<close>,
  \<open>f\<close> and \<open>g\<close> are non-negative and at most \<open>b\<close>, the century number, which is at
  most 451 exactly when \<open>y \<le> 45199\<close>. So all twelve lie between 0 and 451 for the years
  from 1583 to 45199.
\<close>

theorem intermediate_ranges:
  assumes "1583 \<le> y"
  shows "(0 \<le> a_of y \<and> a_of y \<le> 451) \<and> (0 \<le> c_of y \<and> c_of y \<le> 451) \<and>
         (0 \<le> e_of y \<and> e_of y \<le> 451) \<and> (0 \<le> h_of y \<and> h_of y \<le> 451) \<and>
         (0 \<le> i_of y \<and> i_of y \<le> 451) \<and> (0 \<le> k_of y \<and> k_of y \<le> 451) \<and>
         (0 \<le> l_of y \<and> l_of y \<le> 451) \<and> (0 \<le> m_of y \<and> m_of y \<le> 451) \<and>
         (0 \<le> b_of y \<and> 0 \<le> d_of y \<and> 0 \<le> f_of y \<and> 0 \<le> g_of y) \<and>
         (d_of y \<le> b_of y \<and> f_of y \<le> b_of y \<and> g_of y \<le> b_of y) \<and>
         (b_of y \<le> 451 \<longleftrightarrow> y \<le> 45199)"
proof -
  have y0: "0 \<le> y"
    using assms by simp
  have b0: "0 \<le> b_of y"
    by (rule b_of_nonneg [OF y0])
  have d: "0 \<le> d_of y \<and> d_of y \<le> b_of y"
    using b0 unfolding d_of_eq by linarith
  have f: "0 \<le> f_of y \<and> f_of y \<le> b_of y"
    using b0 unfolding f_of_eq by linarith
  have g: "0 \<le> g_of y \<and> g_of y \<le> b_of y"
    using b0 f unfolding g_of_eq by linarith
  have b: "b_of y \<le> 451 \<longleftrightarrow> y \<le> 45199"
    unfolding b_of_eq by linarith
  from a_of_bounds [OF y0] c_of_bounds [OF y0] e_of_bounds [OF y0] h_of_bounds [OF y0]
    i_of_bounds [OF y0] k_of_bounds [OF y0] l_of_bounds [OF y0] m_of_bounds [OF y0]
    b0 d f g b
  show ?thesis
    by simp
qed

theorem intermediate_ranges_witness:
  "1583 \<le> (2024::int) \<and> (2024::int) \<le> 45199 \<and> b_of 2024 \<le> 451 \<and>
   0 \<le> d_of 2024 \<and> d_of 2024 \<le> b_of 2024 \<and> 0 \<le> h_of 2024 \<and> h_of 2024 \<le> 451"
proof -
  have lo: "1583 \<le> (2024::int)" and hi: "(2024::int) \<le> 45199"
    by simp_all
  from intermediate_ranges [OF lo] lo hi show ?thesis
    by blast
qed

section \<open>C9: the tense phrases\<close>

text \<open>
  Both variants of src/main.js answer the tense \<open>future\<close> with the words in another
  order.
\<close>

theorem tenseSetter_future_counterexample:
  "tenseSetter_main1 (String ''future'') = String ''will Easter be'' \<and>
   tenseSetter_main1 (String ''future'') \<noteq> String ''will be Easter'' \<and>
   tenseSetter_main2 (String ''future'') = String ''will Easter be'' \<and>
   tenseSetter_main2 (String ''future'') \<noteq> String ''will be Easter''"
  by (simp add: tenseSetter_main1_def tenseSetter_main2_def)

text \<open>
  Claim C9, amended. In each of the three variants \<open>tenseSetter('past')\<close> is
  \<open>was Easter\<close> and \<open>tenseSetter('present')\<close> is \<open>is Easter\<close>; \<open>tenseSetter('future')\<close> is
  \<open>will be Easter\<close> in the variant of src/unnamed/part_000 and \<open>will Easter be\<close> in the
  two variants of src/main.js.
\<close>

theorem tenseSetter_phrases:
  "tenseSetter_main1 (String ''past'') = String ''was Easter'' \<and>
   tenseSetter_main1 (String ''present'') = String ''is Easter'' \<and>
   tenseSetter_main1 (String ''future'') = String ''will Easter be'' \<and>
   tenseSetter_main2 (String ''past'') = String ''was Easter'' \<and>
   tenseSetter_main2 (String ''present'') = String ''is Easter'' \<and>
   tenseSetter_main2 (String ''future'') = String ''will Easter be'' \<and>
   tenseSetter_part000 (String ''past'') = String ''was Easter'' \<and>
   tenseSetter_part000 (String ''present'') = String ''is Easter'' \<and>
   tenseSetter_part000 (String ''future'') = String ''will be Easter''"
  by (simp add: tenseSetter_main1_def tenseSetter_main2_def tenseSetter_part000_def)

section \<open>C10: the inline calculateEaster against calculateEasterYMD\<close>

text \<open>
  Claim C10 states that the inline \<open>calculateEaster\<close> of src/main.js returns the triple
  of \<open>calculateEasterYMD\<close> for every year from 1583 on. At the year 1954 the inline
  function returns April 25 and \<open>calculateEasterYMD\<close> returns April 18.
\<close>

theorem inline_calculateEaster_diverges:
  "1583 \<le> (1954::int) \<and>
   main_calculateEaster 1954 = (1954, 4, 25) \<and>
   calculateEasterYMD (int_year 1954) = Inr (1954, 4, 18)"
  using calculateEasterYMD_int_year [of 1954] by (simp add: main_1954 date_1954)

text \<open>
  Both guards of \<open>calculateEasterYMD\<close> pass at the year 1954, and the two results differ.
\<close>

theorem inline_calculateEaster_diverges_witness:
  "typeof (int_year 1954) = ''number'' \<and> Number_isInteger (int_year 1954) \<and>
   \<not> to_int (int_year 1954) < 1583 \<and>
   calculateEasterYMD (int_year 1954) \<noteq> Inr (main_calculateEaster 1954)"
proof -
  have "calculateEasterYMD (int_year 1954) \<noteq> Inr (main_calculateEaster 1954)"
    using inline_calculateEaster_diverges by simp
  then show ?thesis
    by simp
qed

end
